theory Spec2Isabelle
  imports Main
begin

section \<open>JavaScript objects as the wrapper uses them\<close>

text \<open>
  The wrapper (\<^verbatim>\<open>src/wrapper.js\<close>) handles plain JavaScript objects: keys, items and the
  two condition mappings. A value is either a base value of the caller (\<open>Val\<close>), the
  value \<^verbatim>\<open>undefined\<close>, or one of the two kinds of value that a plain object inherits
  from \<^verbatim>\<open>Object.prototype\<close>: a built-in function, or (through the accessor
  \<^verbatim>\<open>__proto__\<close>) the prototype object itself.

  An object is the list of its own enumerable string-keyed properties, in the order in
  which \<^verbatim>\<open>for (const key in obj)\<close> visits them. A well-formed object has distinct keys.
\<close>

datatype 'v jsval =
    Val 'v
  | Undefined
  | Native_function string
  | Prototype_object

type_synonym 'v obj = "(string \<times> 'v jsval) list"

text \<open>The properties every plain object inherits; none of them is enumerable.\<close>

definition Object_prototype :: "'v obj" where
  "Object_prototype =
     [(''constructor'', Native_function ''Object''),
      (''__defineGetter__'', Native_function ''__defineGetter__''),
      (''__defineSetter__'', Native_function ''__defineSetter__''),
      (''hasOwnProperty'', Native_function ''hasOwnProperty''),
      (''__lookupGetter__'', Native_function ''__lookupGetter__''),
      (''__lookupSetter__'', Native_function ''__lookupSetter__''),
      (''isPrototypeOf'', Native_function ''isPrototypeOf''),
      (''propertyIsEnumerable'', Native_function ''propertyIsEnumerable''),
      (''toString'', Native_function ''toString''),
      (''valueOf'', Native_function ''valueOf''),
      (''__proto__'', Prototype_object),
      (''toLocaleString'', Native_function ''toLocaleString'')]"

text \<open>\<^verbatim>\<open>obj[key]\<close>: the own property, else the inherited one, else \<^verbatim>\<open>undefined\<close>.\<close>

definition get_prop :: "'v obj \<Rightarrow> string \<Rightarrow> 'v jsval" where
  "get_prop obj key =
     (case map_of obj key of
        Some v \<Rightarrow> v
      | None \<Rightarrow> (case map_of Object_prototype key of Some v \<Rightarrow> v | None \<Rightarrow> Undefined))"

text \<open>
  \<^verbatim>\<open>obj[key] = v\<close> on an object that started as \<^verbatim>\<open>{}\<close>, for a key that is neither an
  array index nor \<^verbatim>\<open>__proto__\<close>: an existing property keeps its place, a new one goes
  last.
\<close>

fun set_prop :: "(string \<times> 'a) list \<Rightarrow> string \<Rightarrow> 'a \<Rightarrow> (string \<times> 'a) list" where
  "set_prop [] key v = [(key, v)]"
| "set_prop ((k, w) # ps) key v =
     (if k = key then (k, v) # ps else (k, w) # set_prop ps key v)"

text \<open>The keys \<^verbatim>\<open>for (const key in obj)\<close> visits, in order.\<close>

definition for_in :: "'v obj \<Rightarrow> string list" where
  "for_in obj = map fst obj"

text \<open>
  What a template literal \<^verbatim>\<open>${v}\<close> prints for the value of a comparison operator
  (a string in the documented use).
\<close>

fun template_text :: "string jsval \<Rightarrow> string" where
  "template_text (Val s) = s"
| "template_text Undefined = ''undefined''"
| "template_text (Native_function f) = ''function '' @ f @ ''() { [native code] }''"
| "template_text Prototype_object = ''[object Object]''"

section \<open>buildConditionExpression\<close>

record 'v condition =
  expression :: string
  names :: "(string \<times> string) list"
  "values" :: "'v obj"

text \<open>One pass of the loop body (wrapper.js, lines 176 to 187).\<close>

definition condition_step ::
  "'v obj \<Rightarrow> string obj \<Rightarrow> 'v condition \<Rightarrow> string \<Rightarrow> 'v condition" where
  "condition_step expr comparison acc key =
     (let attributeName = ''#'' @ key;
          attributeValue = '':'' @ key;
          comparisonOperator = get_prop comparison key;
          expressionAttributeNames = set_prop (names acc) attributeName key;
          expressionAttributeValues = set_prop (values acc) attributeValue (get_prop expr key);
          expressionString =
            (if length (expression acc) > 0 then expression acc @ '' AND ''
             else expression acc)
      in \<lparr>expression =
            expressionString @ attributeName @ '' '' @ template_text comparisonOperator
              @ '' '' @ attributeValue,
          names = expressionAttributeNames,
          values = expressionAttributeValues\<rparr>)"

definition buildConditionExpression :: "'v obj \<Rightarrow> string obj \<Rightarrow> 'v condition" where
  "buildConditionExpression expr comparison =
     foldl (condition_step expr comparison)
       \<lparr>expression = '''', names = [], values = []\<rparr> (for_in expr)"

section \<open>The document-store client\<close>

text \<open>
  The SDK's \<^verbatim>\<open>DocumentClient\<close> is outside the repository. Each of its request methods
  takes a parameter object and a callback, and calls the callback once, with
  \<^verbatim>\<open>(err, null)\<close> (an error object) or with \<^verbatim>\<open>(null, data)\<close>. The client is a parameter of
  the model: four functions that answer a request in a state \<open>'s\<close> of the remote
  service and return the new state.
\<close>

datatype ('e, 'd) response = Failure 'e | Success 'd

text \<open>How the promise returned by an operation is settled.\<close>

datatype ('e, 'a) outcome = Rejected 'e | Resolved 'a

text \<open>The parameter object of a request; \<open>None\<close> is a property that was not set.\<close>

record 'v params =
  TableName :: string
  Key :: "'v obj option"
  Item :: "'v obj option"
  ConditionExpression :: "string option"
  ExpressionAttributeNames :: "(string \<times> string) list option"
  ExpressionAttributeValues :: "'v obj option"
  ExclusiveStartKey :: "'v obj option"

text \<open>The two properties of a scan result that the wrapper reads.\<close>

record 'v scan_output =
  Items :: "'v obj list"
  LastEvaluatedKey :: "'v obj option"

record ('s, 'e, 'd, 'v) client =
  get :: "'v params \<Rightarrow> 's \<Rightarrow> ('e, 'd) response \<times> 's"
  put :: "'v params \<Rightarrow> 's \<Rightarrow> ('e, 'd) response \<times> 's"
  delete :: "'v params \<Rightarrow> 's \<Rightarrow> ('e, 'd) response \<times> 's"
  scan :: "'v params \<Rightarrow> 's \<Rightarrow> ('e, 'v scan_output) response \<times> 's"

text \<open>The object literal \<^verbatim>\<open>{ TableName: tableName }\<close>.\<close>

definition table_params :: "string \<Rightarrow> 'v params" where
  "table_params tableName =
     \<lparr>TableName = tableName, Key = None, Item = None, ConditionExpression = None,
      ExpressionAttributeNames = None, ExpressionAttributeValues = None,
      ExclusiveStartKey = None\<rparr>"

text \<open>
  An optional argument of a call: left out, \<^verbatim>\<open>null\<close>, or an object. The default
  \<^verbatim>\<open>= null\<close> of a parameter replaces an argument that was left out; an object is
  truthy, \<^verbatim>\<open>null\<close> is not.
\<close>

datatype 'a arg = Absent | Null | Given 'a

fun default_null :: "'a arg \<Rightarrow> 'a arg" where
  "default_null Absent = Null"
| "default_null a = a"

section \<open>The operations of the wrapper\<close>

definition getItem ::
  "('s, 'e, 'd, 'v) client \<Rightarrow> string \<Rightarrow> 'v obj \<Rightarrow> 's \<Rightarrow> ('e, 'd) outcome \<times> 's" where
  "getItem client tableName key s =
     (let params = (table_params tableName)\<lparr>Key := Some key\<rparr>
      in case get client params s of
           (Failure err, s') \<Rightarrow> (Rejected err, s')
         | (Success data, s') \<Rightarrow> (Resolved data, s'))"

text \<open>The parameter object \<^verbatim>\<open>deleteItem\<close> has built when it calls the client (lines 61 to 71).\<close>

definition deleteItem_params ::
  "string \<Rightarrow> 'v obj \<Rightarrow> 'v obj arg \<Rightarrow> string obj arg \<Rightarrow> 'v params" where
  "deleteItem_params tableName key expression_arg comparison_arg =
     (let params = (table_params tableName)\<lparr>Key := Some key\<rparr>
      in case (default_null expression_arg, default_null comparison_arg) of
           (Given expr, Given comparison) \<Rightarrow>
             (let conditionExpression = buildConditionExpression expr comparison
              in params\<lparr>ConditionExpression := Some (expression conditionExpression),
                        ExpressionAttributeNames := Some (names conditionExpression),
                        ExpressionAttributeValues := Some (values conditionExpression)\<rparr>)
         | _ \<Rightarrow> params)"

definition deleteItem ::
  "('s, 'e, 'd, 'v) client \<Rightarrow> string \<Rightarrow> 'v obj \<Rightarrow> 'v obj arg \<Rightarrow> string obj arg \<Rightarrow> 's
     \<Rightarrow> ('e, 'd) outcome \<times> 's" where
  "deleteItem client tableName key expression_arg comparison_arg s =
     (case delete client (deleteItem_params tableName key expression_arg comparison_arg) s of
        (Failure err, s') \<Rightarrow> (Rejected err, s')
      | (Success data, s') \<Rightarrow> (Resolved data, s'))"

text \<open>The parameter object \<^verbatim>\<open>putItem\<close> has built when it calls the client (lines 137 to 147).\<close>

definition putItem_params ::
  "string \<Rightarrow> 'v obj \<Rightarrow> 'v obj arg \<Rightarrow> string obj arg \<Rightarrow> 'v params" where
  "putItem_params tableName item expression_arg comparison_arg =
     (let params = (table_params tableName)\<lparr>Item := Some item\<rparr>
      in case (default_null expression_arg, default_null comparison_arg) of
           (Given expr, Given comparison) \<Rightarrow>
             (let conditionExpression = buildConditionExpression expr comparison
              in params\<lparr>ConditionExpression := Some (expression conditionExpression),
                        ExpressionAttributeNames := Some (names conditionExpression),
                        ExpressionAttributeValues := Some (values conditionExpression)\<rparr>)
         | _ \<Rightarrow> params)"

definition putItem ::
  "('s, 'e, 'd, 'v) client \<Rightarrow> string \<Rightarrow> 'v obj \<Rightarrow> 'v obj arg \<Rightarrow> string obj arg \<Rightarrow> 's
     \<Rightarrow> ('e, 'd) outcome \<times> 's" where
  "putItem client tableName item expression_arg comparison_arg s =
     (case put client (putItem_params tableName item expression_arg comparison_arg) s of
        (Failure err, s') \<Rightarrow> (Rejected err, s')
      | (Success data, s') \<Rightarrow> (Resolved data, s'))"

text \<open>
  \<^verbatim>\<open>this.client.scan(params, onScan)\<close> with its callback (lines 108 to 121): the
  request, then either the rejection, or the next request with the continuation key, or
  the resolution with the items gathered. The remote service decides whether a page
  without a continuation key ever comes, so the loop is a partial function: \<open>None\<close> is
  a promise that is never settled.
\<close>

partial_function (option) onScan ::
  "('s, 'e, 'd, 'v) client \<Rightarrow> 'v params \<Rightarrow> 'v obj list \<Rightarrow> 's
     \<Rightarrow> (('e, 'v obj list) outcome \<times> 's) option" where
  "onScan client params items s =
     (case scan client params s of
        (Failure err, s') \<Rightarrow> Some (Rejected err, s')
      | (Success data, s') \<Rightarrow>
          (case LastEvaluatedKey data of
             Some k \<Rightarrow>
               onScan client (params\<lparr>ExclusiveStartKey := Some k\<rparr>) (items @ Items data) s'
           | None \<Rightarrow> Some (Resolved (items @ Items data), s')))"

text \<open>\<^verbatim>\<open>paginate\<close> is a boolean (\<^verbatim>\<open>false\<close> when left out).\<close>

definition scanTable ::
  "('s, 'e, 'd, 'v) client \<Rightarrow> string \<Rightarrow> bool \<Rightarrow> 's
     \<Rightarrow> (('e, 'v obj list) outcome \<times> 's) option" where
  "scanTable client tableName paginate s =
     (let params = table_params tableName
      in if \<not> paginate then
           (case scan client params s of
              (Failure err, s') \<Rightarrow> Some (Rejected err, s')
            | (Success data, s') \<Rightarrow> Some (Resolved (Items data), s'))
         else onScan client params [] s)"

section \<open>The constructor and the SDK's configuration\<close>

text \<open>
  \<^verbatim>\<open>AWS.config\<close> is one object for the whole process. Of its settings the constructor
  touches the region and the endpoint of the \<^verbatim>\<open>dynamodb\<close> service.
\<close>

record aws_config =
  region :: "string option"
  dynamodb_endpoint :: "string option"

text \<open>
  The process: the global configuration, and for every \<^verbatim>\<open>DocumentClient\<close> created so
  far the configuration that client works with. The SDK gives a new service object its
  own configuration, filled from the global one when the object is created
  (\<^verbatim>\<open>this.config = new AWS.Config(AWS.config)\<close> in the SDK's service constructor).
\<close>

record process =
  AWS_config :: aws_config
  clients :: "aws_config list"

text \<open>
  \<^verbatim>\<open>x && { ... }\<close> under the spread: the setting is passed on only when the argument is
  truthy, that is a string that is not empty.
\<close>

fun truthy_string :: "string arg \<Rightarrow> string option" where
  "truthy_string (Given x) = (if x = [] then None else Some x)"
| "truthy_string _ = None"

text \<open>\<^verbatim>\<open>AWS.config.update\<close> with the object of lines 16 to 22.\<close>

definition config_update :: "string arg \<Rightarrow> string arg \<Rightarrow> aws_config \<Rightarrow> aws_config" where
  "config_update region_arg endpoint_arg config =
     (let config1 = (case truthy_string region_arg of
                       Some r \<Rightarrow> config\<lparr>region := Some r\<rparr>
                     | None \<Rightarrow> config)
      in case truthy_string endpoint_arg of
           Some e \<Rightarrow> config1\<lparr>dynamodb_endpoint := Some e\<rparr>
         | None \<Rightarrow> config1)"

text \<open>
  The constructor returns the new instance, named by the position of its client in the
  process.
\<close>

definition "constructor" :: "string arg \<Rightarrow> string arg \<Rightarrow> process \<Rightarrow> nat \<times> process" where
  "constructor region_arg endpoint_arg p =
     (let config = config_update region_arg endpoint_arg (AWS_config p)
      in (length (clients p), \<lparr>AWS_config = config, clients = clients p @ [config]\<rparr>))"

section \<open>A scripted client\<close>

text \<open>
  A client that answers from a script and records the requests it receives: the
  answers still to be given to \<^verbatim>\<open>get\<close>, \<^verbatim>\<open>put\<close> and \<^verbatim>\<open>delete\<close> requests, the answers
  still to be given to \<^verbatim>\<open>scan\<close> requests, and the parameter objects received so far,
  oldest first. A run of the wrapper against any service is such a script. When the
  script has run out the client answers with the error \<open>exhausted\<close>.
\<close>

record ('e, 'd, 'v) script =
  replies :: "('e, 'd) response list"
  pages :: "('e, 'v scan_output) response list"
  sent :: "'v params list"

definition answer ::
  "'e \<Rightarrow> 'v params \<Rightarrow> ('e, 'd, 'v) script \<Rightarrow> ('e, 'd) response \<times> ('e, 'd, 'v) script" where
  "answer exhausted p s =
     (case replies s of
        [] \<Rightarrow> (Failure exhausted, s\<lparr>sent := sent s @ [p]\<rparr>)
      | r # rs \<Rightarrow> (r, s\<lparr>replies := rs, sent := sent s @ [p]\<rparr>))"

definition answer_scan ::
  "'e \<Rightarrow> 'v params \<Rightarrow> ('e, 'd, 'v) script
     \<Rightarrow> ('e, 'v scan_output) response \<times> ('e, 'd, 'v) script" where
  "answer_scan exhausted p s =
     (case pages s of
        [] \<Rightarrow> (Failure exhausted, s\<lparr>sent := sent s @ [p]\<rparr>)
      | r # rs \<Rightarrow> (r, s\<lparr>pages := rs, sent := sent s @ [p]\<rparr>))"

definition scripted :: "'e \<Rightarrow> (('e, 'd, 'v) script, 'e, 'd, 'v) client" where
  "scripted exhausted =
     \<lparr>get = answer exhausted, put = answer exhausted, delete = answer exhausted,
      scan = answer_scan exhausted\<rparr>"

text \<open>
  Attribute values as the \<^verbatim>\<open>DocumentClient\<close> takes them, for concrete items: strings,
  numbers and nested maps.
\<close>

datatype attr = S string | N int | M "(string \<times> attr jsval) list"

text \<open>
  Scan answers that carry a continuation key, given as pairs of a page's items and its
  key; and the requests that continue from those keys.
\<close>

definition more_pages ::
  "('v obj list \<times> 'v obj) list \<Rightarrow> ('e, 'v scan_output) response list" where
  "more_pages ps = map (\<lambda>(xs, k). Success \<lparr>Items = xs, LastEvaluatedKey = Some k\<rparr>) ps"

definition continued :: "'v params \<Rightarrow> ('v obj list \<times> 'v obj) list \<Rightarrow> 'v params list" where
  "continued p ps = map (\<lambda>(xs, k). p\<lparr>ExclusiveStartKey := Some k\<rparr>) ps"

text \<open>
  The specification describes the result as clauses joined by the separator
  \<^verbatim>\<open>" AND "\<close>. The next two definitions follow those words; they are compared with the
  loop of the source below.
\<close>

definition clause :: "string obj \<Rightarrow> string \<Rightarrow> string" where
  "clause comparison key =
     ''#'' @ key @ '' '' @ template_text (get_prop comparison key) @ '' '' @ '':'' @ key"

fun join_AND :: "string list \<Rightarrow> string" where
  "join_AND [] = ''''"
| "join_AND [c] = c"
| "join_AND (c # d # cs) = c @ '' AND '' @ join_AND (d # cs)"

section \<open>Properties of buildConditionExpression\<close>

lemma set_prop_fresh: "key \<notin> fst ` set ps \<Longrightarrow> set_prop ps key v = ps @ [(key, v)]"
  by (induction ps) auto

lemma join_AND_snoc:
  "join_AND (cs @ [c]) = (if cs = [] then c else join_AND cs @ '' AND '' @ c)"
  by (induction cs rule: join_AND.induct) auto

lemma join_AND_empty_iff: "\<forall>c \<in> set cs. c \<noteq> [] \<Longrightarrow> join_AND cs = [] \<longleftrightarrow> cs = []"
  by (induction cs rule: join_AND.induct) auto

lemma length_join_AND:
  "length (join_AND cs) = sum_list (map length cs) + 5 * (length cs - 1)"
  by (induction cs rule: join_AND.induct) auto

lemma clause_nonempty: "clause comparison key \<noteq> []"
  by (simp add: clause_def)

lemma expression_step:
  "expression (condition_step expr comparison acc k) =
     (if expression acc = [] then clause comparison k
      else expression acc @ '' AND '' @ clause comparison k)"
  by (simp add: condition_step_def Let_def clause_def)

lemma names_step:
  "names (condition_step expr comparison acc k) = set_prop (names acc) (''#'' @ k) k"
  by (simp add: condition_step_def Let_def)

lemma values_step:
  "values (condition_step expr comparison acc k) =
     set_prop (values acc) ('':'' @ k) (get_prop expr k)"
  by (simp add: condition_step_def Let_def)

text \<open>The separator is added exactly when a clause has been written before.\<close>

lemma expression_loop:
  "expression (foldl (condition_step expr comparison)
       \<lparr>expression = '''', names = [], values = []\<rparr> ks)
     = join_AND (map (clause comparison) ks)"
proof (induction ks rule: rev_induct)
  case Nil
  show ?case by simp
next
  case (snoc k ks)
  have ne: "join_AND (map (clause comparison) ks) = [] \<longleftrightarrow> ks = []"
    using join_AND_empty_iff [of "map (clause comparison) ks"] by (simp add: clause_nonempty)
  show ?case
    using snoc ne by (simp add: expression_step join_AND_snoc)
qed

lemma names_loop:
  "distinct ks \<Longrightarrow>
   names (foldl (condition_step expr comparison)
       \<lparr>expression = '''', names = [], values = []\<rparr> ks)
     = map (\<lambda>k. (''#'' @ k, k)) ks"
proof (induction ks rule: rev_induct)
  case Nil
  show ?case by simp
next
  case (snoc k ks)
  then have fresh: "''#'' @ k \<notin> fst ` set (map (\<lambda>k. (''#'' @ k, k)) ks)"
    by (auto simp: image_iff)
  show ?case
    using snoc fresh by (simp add: names_step set_prop_fresh)
qed

lemma values_loop:
  "distinct ks \<Longrightarrow>
   values (foldl (condition_step expr comparison)
       \<lparr>expression = '''', names = [], values = []\<rparr> ks)
     = map (\<lambda>k. ('':'' @ k, get_prop expr k)) ks"
proof (induction ks rule: rev_induct)
  case Nil
  show ?case by simp
next
  case (snoc k ks)
  then have fresh: "'':'' @ k \<notin> fst ` set (map (\<lambda>k. ('':'' @ k, get_prop expr k)) ks)"
    by (auto simp: image_iff)
  show ?case
    using snoc fresh by (simp add: values_step set_prop_fresh)
qed

lemma get_prop_own: "distinct (map fst obj) \<Longrightarrow> (k, v) \<in> set obj \<Longrightarrow> get_prop obj k = v"
  by (simp add: get_prop_def)

lemma get_prop_missing:
  "key \<notin> fst ` set obj \<Longrightarrow> key \<notin> fst ` set (Object_prototype :: 'v obj) \<Longrightarrow>
   get_prop (obj :: 'v obj) key = Undefined"
  by (simp add: get_prop_def map_of_eq_None_iff [THEN iffD2])

lemma expression_build:
  "expression (buildConditionExpression expr comparison)
     = join_AND (map (clause comparison) (for_in expr))"
  by (simp add: buildConditionExpression_def expression_loop)

lemma names_build:
  "distinct (for_in expr) \<Longrightarrow>
   names (buildConditionExpression expr comparison) = map (\<lambda>(k, v). (''#'' @ k, k)) expr"
  by (simp add: buildConditionExpression_def names_loop for_in_def case_prod_beta)

lemma values_build:
  "distinct (for_in expr) \<Longrightarrow>
   values (buildConditionExpression expr comparison) = map (\<lambda>(k, v). ('':'' @ k, v)) expr"
  by (auto simp: buildConditionExpression_def values_loop for_in_def get_prop_own)

section \<open>Properties of the paginated scan\<close>

lemma onScan_error:
  "scan client p s = (Failure err, s') \<Longrightarrow> onScan client p items s = Some (Rejected err, s')"
  by (subst onScan.simps) simp

lemma onScan_last:
  "scan client p s = (Success data, s') \<Longrightarrow> LastEvaluatedKey data = None \<Longrightarrow>
   onScan client p items s = Some (Resolved (items @ Items data), s')"
  by (subst onScan.simps) simp

lemma onScan_more:
  "scan client p s = (Success data, s') \<Longrightarrow> LastEvaluatedKey data = Some k \<Longrightarrow>
   onScan client p items s
     = onScan client (p\<lparr>ExclusiveStartKey := Some k\<rparr>) (items @ Items data) s'"
  by (subst onScan.simps) simp

lemma scan_scripted:
  "scan (scripted x) p \<lparr>replies = rs, pages = r # rest, sent = log\<rparr>
     = (r, \<lparr>replies = rs, pages = rest, sent = log @ [p]\<rparr>)"
  by (simp add: scripted_def answer_scan_def)

lemma onScan_scripted_step:
  "onScan (scripted x) p items
      \<lparr>replies = rs, pages = more_pages ((xs, k) # ps) @ rest, sent = log\<rparr>
   = onScan (scripted x) (p\<lparr>ExclusiveStartKey := Some k\<rparr>) (items @ xs)
      \<lparr>replies = rs, pages = more_pages ps @ rest, sent = log @ [p]\<rparr>"
proof -
  have "scan (scripted x) p \<lparr>replies = rs, pages = more_pages ((xs, k) # ps) @ rest, sent = log\<rparr>
      = (Success \<lparr>Items = xs, LastEvaluatedKey = Some k\<rparr>,
         \<lparr>replies = rs, pages = more_pages ps @ rest, sent = log @ [p]\<rparr>)"
    by (simp add: more_pages_def scan_scripted)
  from onScan_more [OF this] show ?thesis by simp
qed

lemma continued_Cons:
  "continued p ((xs, k) # ps)
     = p\<lparr>ExclusiveStartKey := Some k\<rparr> # continued (p\<lparr>ExclusiveStartKey := Some k\<rparr>) ps"
  by (simp add: continued_def)

lemma onScan_scripted_resolves:
  "onScan (scripted x) p items
      \<lparr>replies = rs,
       pages = more_pages ps @ Success \<lparr>Items = ys, LastEvaluatedKey = None\<rparr> # rest,
       sent = log\<rparr>
   = Some (Resolved (items @ concat (map fst ps) @ ys),
       \<lparr>replies = rs, pages = rest, sent = log @ p # continued p ps\<rparr>)"
proof (induction ps arbitrary: p items log)
  case Nil
  have "scan (scripted x) p
      \<lparr>replies = rs, pages = Success \<lparr>Items = ys, LastEvaluatedKey = None\<rparr> # rest, sent = log\<rparr>
      = (Success \<lparr>Items = ys, LastEvaluatedKey = None\<rparr>,
         \<lparr>replies = rs, pages = rest, sent = log @ [p]\<rparr>)"
    by (rule scan_scripted)
  from onScan_last [OF this] show ?case
    by (simp add: more_pages_def continued_def)
next
  case (Cons a ps)
  obtain xs k where a: "a = (xs, k)" by (cases a)
  show ?case
    unfolding a onScan_scripted_step Cons.IH continued_Cons by simp
qed

lemma onScan_scripted_rejects:
  "onScan (scripted x) p items
      \<lparr>replies = rs, pages = more_pages ps @ Failure err # rest, sent = log\<rparr>
   = Some (Rejected err, \<lparr>replies = rs, pages = rest, sent = log @ p # continued p ps\<rparr>)"
proof (induction ps arbitrary: p items log)
  case Nil
  have "scan (scripted x) p \<lparr>replies = rs, pages = Failure err # rest, sent = log\<rparr>
      = (Failure err, \<lparr>replies = rs, pages = rest, sent = log @ [p]\<rparr>)"
    by (rule scan_scripted)
  from onScan_error [OF this] show ?case
    by (simp add: more_pages_def continued_def)
next
  case (Cons a ps)
  obtain xs k where a: "a = (xs, k)" by (cases a)
  show ?case
    unfolding a onScan_scripted_step Cons.IH continued_Cons by simp
qed

section \<open>Claims about buildConditionExpression\<close>

text \<open>
  Claim C1. For two mappings that share the same \<open>n\<close> keys, the expression string is
  \<open>n\<close> clauses joined by \<^verbatim>\<open>" AND "\<close>, one separator fewer than clauses (for
  \<open>n = 0\<close> the string is empty), and each of the two placeholder mappings has exactly
  \<open>n\<close> entries: \<^verbatim>\<open>#k\<close> bound to the attribute name \<open>k\<close> and \<^verbatim>\<open>:k\<close> bound to the
  comparison value of \<open>k\<close>. The clause of \<open>k\<close> carries the operator that the operator
  mapping gives for \<open>k\<close>. A separator has five characters, which the length of the
  string accounts for.
\<close>

theorem buildConditionExpression_N_clauses:
  assumes wf: "distinct (for_in expr)"
    and shared: "set (for_in comparison) = set (for_in expr)"
  shows "(let r = buildConditionExpression expr comparison;
              clauses = map (clause comparison) (for_in expr);
              n = length (for_in expr)
          in length clauses = n
           \<and> expression r = join_AND clauses
           \<and> (if n = 0 then expression r = ''''
               else length (expression r) + 5 = sum_list (map length clauses) + 5 * n)
           \<and> length (names r) = n \<and> length (values r) = n
           \<and> names r = map (\<lambda>(k, v). (''#'' @ k, k)) expr
           \<and> values r = map (\<lambda>(k, v). ('':'' @ k, v)) expr
           \<and> (\<forall>k \<in> set (for_in expr). \<exists>operator.
                 map_of comparison k = Some operator
               \<and> clause comparison k
                   = ''#'' @ k @ '' '' @ template_text operator @ '' :'' @ k))"
proof -
  have ops: "\<exists>operator. map_of comparison k = Some operator
      \<and> clause comparison k = ''#'' @ k @ '' '' @ template_text operator @ '' :'' @ k"
    if "k \<in> set (for_in expr)" for k
  proof -
    from that shared have "k \<in> fst ` set comparison"
      by (simp add: for_in_def)
    then obtain operator where "map_of comparison k = Some operator"
      by (metis domD dom_map_of_conv_image_fst)
    then show ?thesis
      by (simp add: clause_def get_prop_def)
  qed
  have e: "expression (buildConditionExpression expr comparison)
      = join_AND (map (clause comparison) (for_in expr))"
    by (rule expression_build)
  have seps: "if length (for_in expr) = 0
      then expression (buildConditionExpression expr comparison) = ''''
      else length (expression (buildConditionExpression expr comparison)) + 5
         = sum_list (map length (map (clause comparison) (for_in expr)))
           + 5 * length (for_in expr)"
    unfolding e by (cases "for_in expr") (simp_all add: length_join_AND)
  have n: "names (buildConditionExpression expr comparison)
      = map (\<lambda>(k, v). (''#'' @ k, k)) expr"
    using wf by (rule names_build)
  have v: "values (buildConditionExpression expr comparison)
      = map (\<lambda>(k, v). ('':'' @ k, v)) expr"
    using wf by (rule values_build)
  have ln: "length (names (buildConditionExpression expr comparison)) = length (for_in expr)"
    unfolding n by (simp add: for_in_def)
  have lv: "length (values (buildConditionExpression expr comparison)) = length (for_in expr)"
    unfolding v by (simp add: for_in_def)
  have lc: "length (map (clause comparison) (for_in expr)) = length (for_in expr)"
    by simp
  from lc e seps ln lv n v ops show ?thesis
    unfolding Let_def by blast
qed

theorem buildConditionExpression_N_clauses_witness:
  "distinct (for_in [(''id'', Val (N 7)), (''v'', Val (N 1))])
   \<and> set (for_in [(''v'', Val ''<>''), (''id'', Val ''='')])
       = set (for_in [(''id'', Val (N 7)), (''v'', Val (N 1))])
   \<and> expression (buildConditionExpression [(''id'', Val (N 7)), (''v'', Val (N 1))]
         [(''v'', Val ''<>''), (''id'', Val ''='')])
       = ''#id = :id AND #v <> :v''
   \<and> names (buildConditionExpression [(''id'', Val (N 7)), (''v'', Val (N 1))]
         [(''v'', Val ''<>''), (''id'', Val ''='')])
       = [(''#id'', ''id''), (''#v'', ''v'')]
   \<and> values (buildConditionExpression [(''id'', Val (N 7)), (''v'', Val (N 1))]
         [(''v'', Val ''<>''), (''id'', Val ''='')])
       = [('':id'', Val (N 7)), ('':v'', Val (N 1))]"
proof -
  have wf: "distinct (for_in [(''id'', Val (N 7)), (''v'', Val (N 1))])"
    by (simp add: for_in_def)
  have shared: "set (for_in [(''v'', Val ''<>''), (''id'', Val ''='')])
      = set (for_in [(''id'', Val (N 7)), (''v'', Val (N 1))])"
    by (auto simp: for_in_def)
  show ?thesis
    using buildConditionExpression_N_clauses [OF wf shared] wf shared
    by (simp add: for_in_def clause_def get_prop_def Let_def)
qed

text \<open>
  Claim C8, as stated: whenever a key of the comparison-value mapping is absent from
  the operator mapping, the operator of its clause is the text \<^verbatim>\<open>undefined\<close>. This
  fails for a key that names a property every plain object inherits: for
  \<^verbatim>\<open>buildConditionExpression({toString: 1}, {})\<close> the lookup
  \<^verbatim>\<open>comparison["toString"]\<close> finds the built-in function, and its source text is
  what the template prints.
\<close>

theorem missing_operator_counterexample:
  "''toString'' \<in> set (for_in [(''toString'', Val (N 1))])
   \<and> ''toString'' \<notin> set (for_in ([] :: string obj))
   \<and> expression (buildConditionExpression [(''toString'', Val (N 1))] [])
       = ''#toString function toString() { [native code] } :toString''
   \<and> expression (buildConditionExpression [(''toString'', Val (N 1))] [])
       \<noteq> ''#toString undefined :toString''"
  by (simp add: buildConditionExpression_def for_in_def condition_step_def get_prop_def
      Object_prototype_def Let_def)

text \<open>
  Claim C8, amended: for a key of the comparison-value mapping that is neither a key of
  the operator mapping nor the name of a property that mapping inherits, the clause of
  the key is \<^verbatim>\<open>#key undefined :key\<close>, it stands in the expression string at the key's
  place, and both placeholders of the key are bound.
\<close>

theorem missing_operator_undefined:
  assumes wf: "distinct (for_in expr)"
    and present: "key \<in> set (for_in expr)"
    and absent: "key \<notin> set (for_in comparison)"
    and not_inherited: "key \<notin> set (for_in (Object_prototype :: string obj))"
  shows "clause comparison key = ''#'' @ key @ '' undefined :'' @ key
       \<and> (\<exists>before after. for_in expr = before @ key # after
            \<and> expression (buildConditionExpression expr comparison)
                = join_AND (map (clause comparison) before
                    @ [''#'' @ key @ '' undefined :'' @ key]
                    @ map (clause comparison) after))
       \<and> map_of (names (buildConditionExpression expr comparison)) (''#'' @ key) = Some key
       \<and> map_of (values (buildConditionExpression expr comparison)) ('':'' @ key)
            = Some (get_prop expr key)"
proof -
  have "get_prop comparison key = Undefined"
    using absent not_inherited by (simp add: get_prop_missing for_in_def)
  then have cl: "clause comparison key = ''#'' @ key @ '' undefined :'' @ key"
    by (simp add: clause_def)
  from present obtain before after where split: "for_in expr = before @ key # after"
    by (meson split_list)
  have ex: "expression (buildConditionExpression expr comparison)
      = join_AND (map (clause comparison) before
          @ [''#'' @ key @ '' undefined :'' @ key] @ map (clause comparison) after)"
    using split cl by (simp add: expression_build)
  from present obtain v where kv: "(key, v) \<in> set expr"
    by (auto simp: for_in_def)
  have nm: "map_of (names (buildConditionExpression expr comparison)) (''#'' @ key) = Some key"
  proof -
    have "distinct (map fst (map (\<lambda>(k, v). (''#'' @ k, k)) expr))"
      using wf by (simp add: for_in_def distinct_map case_prod_beta comp_def inj_on_def)
    moreover have "(''#'' @ key, key) \<in> set (map (\<lambda>(k, v). (''#'' @ k, k)) expr)"
      using kv by force
    ultimately show ?thesis
      using wf by (simp add: names_build)
  qed
  have vl: "map_of (values (buildConditionExpression expr comparison)) ('':'' @ key)
      = Some (get_prop expr key)"
  proof -
    have "distinct (map fst (map (\<lambda>(k, v). ('':'' @ k, v)) expr))"
      using wf by (simp add: for_in_def distinct_map case_prod_beta comp_def inj_on_def)
    moreover have "('':'' @ key, v) \<in> set (map (\<lambda>(k, v). ('':'' @ k, v)) expr)"
      using kv by force
    moreover have "get_prop expr key = v"
      using wf kv by (simp add: get_prop_own for_in_def)
    ultimately show ?thesis
      using wf by (simp add: values_build)
  qed
  from cl ex split nm vl show ?thesis by blast
qed

theorem missing_operator_undefined_witness:
  "distinct (for_in [(''id'', Val (N 7)), (''v'', Val (N 1))])
   \<and> ''v'' \<in> set (for_in [(''id'', Val (N 7)), (''v'', Val (N 1))])
   \<and> ''v'' \<notin> set (for_in [(''id'', Val ''='')])
   \<and> ''v'' \<notin> set (for_in (Object_prototype :: string obj))
   \<and> clause [(''id'', Val ''='')] ''v'' = ''#v undefined :v''
   \<and> expression (buildConditionExpression [(''id'', Val (N 7)), (''v'', Val (N 1))]
         [(''id'', Val ''='')])
       = ''#id = :id AND #v undefined :v''
   \<and> map_of (names (buildConditionExpression [(''id'', Val (N 7)), (''v'', Val (N 1))]
         [(''id'', Val ''='')])) ''#v'' = Some ''v''
   \<and> map_of (values (buildConditionExpression [(''id'', Val (N 7)), (''v'', Val (N 1))]
         [(''id'', Val ''='')])) '':v'' = Some (Val (N 1))"
proof -
  have wf: "distinct (for_in [(''id'', Val (N 7)), (''v'', Val (N 1))])"
    by (simp add: for_in_def)
  have present: "''v'' \<in> set (for_in [(''id'', Val (N 7)), (''v'', Val (N 1))])"
    by (simp add: for_in_def)
  have absent: "''v'' \<notin> set (for_in [(''id'', Val ''='')])"
    by (simp add: for_in_def)
  have not_inherited: "''v'' \<notin> set (for_in (Object_prototype :: string obj))"
    by (simp add: for_in_def Object_prototype_def)
  have whole: "expression (buildConditionExpression [(''id'', Val (N 7)), (''v'', Val (N 1))]
        [(''id'', Val ''='')])
      = ''#id = :id AND #v undefined :v''"
    by (simp add: expression_build for_in_def clause_def get_prop_def Object_prototype_def)
  have "get_prop [(''id'', Val (N 7)), (''v'', Val (N 1))] ''v'' = Val (N 1)"
    by (simp add: get_prop_def)
  with missing_operator_undefined [OF wf present absent not_inherited]
    wf present absent not_inherited whole
  show ?thesis
    by simp
qed

section \<open>Claims about scanTable\<close>

text \<open>
  Claim C3. Let the service answer the scan requests with any finite sequence of pages
  \<open>ps\<close> that carry a continuation key, followed by a page that carries none. Then
  \<^verbatim>\<open>scanTable(table, true)\<close> sends the plain request first and after each page of
  \<open>ps\<close> one request with that page's key as \<^verbatim>\<open>ExclusiveStartKey\<close>, in this order;
  it resolves with the items of all pages, concatenated in the order of the requests;
  and it stops at the page without a key: the answers after it stay unused.
\<close>

theorem scanTable_paginate_concatenates_pages:
  "scanTable (scripted x) tableName True
      \<lparr>replies = rs,
       pages = more_pages ps @ Success \<lparr>Items = ys, LastEvaluatedKey = None\<rparr> # rest,
       sent = log\<rparr>
   = Some (Resolved (concat (map fst ps) @ ys),
       \<lparr>replies = rs, pages = rest,
        sent = log @ table_params tableName # continued (table_params tableName) ps\<rparr>)"
  by (simp add: scanTable_def Let_def onScan_scripted_resolves)

theorem scanTable_paginate_concatenates_pages_witness:
  "scanTable (scripted ''none'') ''T'' True
      \<lparr>replies = ([] :: (string, attr obj) response list),
       pages = [Success \<lparr>Items = [[(''id'', Val (S ''a''))], [(''id'', Val (S ''b''))]],
                  LastEvaluatedKey = Some [(''id'', Val (S ''b''))]\<rparr>,
                Success \<lparr>Items = [[(''id'', Val (S ''c''))]],
                  LastEvaluatedKey = Some [(''id'', Val (S ''c''))]\<rparr>,
                Success \<lparr>Items = [[(''id'', Val (S ''d''))]], LastEvaluatedKey = None\<rparr>,
                Failure ''unused''],
       sent = []\<rparr>
   = Some (Resolved [[(''id'', Val (S ''a''))], [(''id'', Val (S ''b''))],
                     [(''id'', Val (S ''c''))], [(''id'', Val (S ''d''))]],
       \<lparr>replies = [], pages = [Failure ''unused''],
        sent = [table_params ''T'',
                (table_params ''T'')\<lparr>ExclusiveStartKey := Some [(''id'', Val (S ''b''))]\<rparr>,
                (table_params ''T'')\<lparr>ExclusiveStartKey := Some [(''id'', Val (S ''c''))]\<rparr>]\<rparr>)"
  using scanTable_paginate_concatenates_pages
    [where x = "''none''" and tableName = "''T''"
       and rs = "[] :: (string, attr obj) response list"
       and ps = "[([[(''id'', Val (S ''a''))], [(''id'', Val (S ''b''))]],
                   [(''id'', Val (S ''b''))]),
                  ([[(''id'', Val (S ''c''))]], [(''id'', Val (S ''c''))])]"
       and ys = "[[(''id'', Val (S ''d''))]]" and rest = "[Failure ''unused'']"
       and log = "[]"]
  by (simp add: more_pages_def continued_def)

text \<open>
  Claim C4. \<^verbatim>\<open>scanTable(table, false)\<close> sends exactly one scan request, the plain
  one, and resolves with the items of the page that answers it, whether or not that
  page carries a continuation key (\<open>k\<close> is arbitrary): what the service would
  answer next stays unused.
\<close>

theorem scanTable_single_page:
  "scanTable (scripted x) tableName False
      \<lparr>replies = rs, pages = Success \<lparr>Items = xs, LastEvaluatedKey = k\<rparr> # rest,
       sent = log\<rparr>
   = Some (Resolved xs,
       \<lparr>replies = rs, pages = rest, sent = log @ [table_params tableName]\<rparr>)"
  by (simp add: scanTable_def scan_scripted)

theorem scanTable_single_page_witness:
  "scanTable (scripted ''none'') ''T'' False
      \<lparr>replies = ([] :: (string, attr obj) response list),
       pages = [Success \<lparr>Items = [[(''id'', Val (S ''a''))]],
                  LastEvaluatedKey = Some [(''id'', Val (S ''a''))]\<rparr>,
                Success \<lparr>Items = [[(''id'', Val (S ''b''))]], LastEvaluatedKey = None\<rparr>],
       sent = []\<rparr>
   = Some (Resolved [[(''id'', Val (S ''a''))]],
       \<lparr>replies = [],
        pages = [Success \<lparr>Items = [[(''id'', Val (S ''b''))]], LastEvaluatedKey = None\<rparr>],
        sent = [table_params ''T'']\<rparr>)"
  using scanTable_single_page
    [where x = "''none''" and tableName = "''T''"
       and rs = "[] :: (string, attr obj) response list"
       and xs = "[[(''id'', Val (S ''a''))]]" and k = "Some [(''id'', Val (S ''a''))]"
       and rest = "[Success \<lparr>Items = [[(''id'', Val (S ''b''))]], LastEvaluatedKey = None\<rparr>]"
       and log = "[]"]
  by simp

text \<open>
  Claim C5. When a page request of \<^verbatim>\<open>scanTable(table, true)\<close> fails, after any number
  of pages \<open>ps\<close> that were received, the promise is rejected with the error of that
  request. The outcome holds the error alone; the items of the pages received before
  are in no part of it, and no further request is sent.
\<close>

theorem scanTable_paginate_rejects:
  "scanTable (scripted x) tableName True
      \<lparr>replies = rs, pages = more_pages ps @ Failure err # rest, sent = log\<rparr>
   = Some (Rejected err,
       \<lparr>replies = rs, pages = rest,
        sent = log @ table_params tableName # continued (table_params tableName) ps\<rparr>)"
  by (simp add: scanTable_def Let_def onScan_scripted_rejects)

theorem scanTable_paginate_rejects_witness:
  "scanTable (scripted ''none'') ''T'' True
      \<lparr>replies = ([] :: (string, attr obj) response list),
       pages = [Success \<lparr>Items = [[(''id'', Val (S ''a''))]],
                  LastEvaluatedKey = Some [(''id'', Val (S ''a''))]\<rparr>,
                Failure ''throttled'',
                Success \<lparr>Items = [[(''id'', Val (S ''b''))]], LastEvaluatedKey = None\<rparr>],
       sent = []\<rparr>
   = Some (Rejected ''throttled'',
       \<lparr>replies = [],
        pages = [Success \<lparr>Items = [[(''id'', Val (S ''b''))]], LastEvaluatedKey = None\<rparr>],
        sent = [table_params ''T'',
                (table_params ''T'')\<lparr>ExclusiveStartKey := Some [(''id'', Val (S ''a''))]\<rparr>]\<rparr>)"
  using scanTable_paginate_rejects
    [where x = "''none''" and tableName = "''T''"
       and rs = "[] :: (string, attr obj) response list"
       and ps = "[([[(''id'', Val (S ''a''))]], [(''id'', Val (S ''a''))])]"
       and err = "''throttled''"
       and rest = "[Success \<lparr>Items = [[(''id'', Val (S ''b''))]], LastEvaluatedKey = None\<rparr>]"
       and log = "[]"]
  by (simp add: more_pages_def continued_def)

section \<open>Claims about errors and results of the operations\<close>

text \<open>
  Claim C6. Whenever the client answers the request of \<^verbatim>\<open>getItem\<close>, \<^verbatim>\<open>putItem\<close>,
  \<^verbatim>\<open>deleteItem\<close> or \<^verbatim>\<open>scanTable\<close> with an error, the promise is rejected with that
  very error, and the service is left in the state right after that one request: the
  error is neither dropped, nor replaced, nor changed, and the request is not sent
  again. For the scan this holds without and with pagination, and with pagination for
  every page request (each of them is sent by \<open>onScan\<close>, with some parameters \<open>p\<close>
  and some items gathered so far).
\<close>

theorem errors_rejected_unchanged:
  "(get client ((table_params tableName)\<lparr>Key := Some key\<rparr>) s = (Failure err, s')
      \<longrightarrow> getItem client tableName key s = (Rejected err, s'))
   \<and> (put client (putItem_params tableName item expression_arg comparison_arg) s
        = (Failure err, s')
      \<longrightarrow> putItem client tableName item expression_arg comparison_arg s = (Rejected err, s'))
   \<and> (delete client (deleteItem_params tableName key expression_arg comparison_arg) s
        = (Failure err, s')
      \<longrightarrow> deleteItem client tableName key expression_arg comparison_arg s
          = (Rejected err, s'))
   \<and> (scan client (table_params tableName) s = (Failure err, s')
      \<longrightarrow> scanTable client tableName False s = Some (Rejected err, s')
        \<and> scanTable client tableName True s = Some (Rejected err, s'))
   \<and> (scan client p s = (Failure err, s')
      \<longrightarrow> onScan client p items s = Some (Rejected err, s'))"
  by (simp add: getItem_def putItem_def deleteItem_def scanTable_def onScan_error)

theorem errors_rejected_unchanged_witness:
  "getItem (scripted ''none'') ''T'' [(''id'', Val (S ''a''))]
      \<lparr>replies = [Failure ''boom''], pages = [], sent = []\<rparr>
     = (Rejected ''boom'',
        \<lparr>replies = ([] :: (string, attr obj) response list), pages = [],
         sent = [(table_params ''T'')\<lparr>Key := Some [(''id'', Val (S ''a''))]\<rparr>]\<rparr>)
   \<and> putItem (scripted ''none'') ''T'' [(''id'', Val (S ''a''))] Absent Absent
      \<lparr>replies = [Failure ''boom''], pages = [], sent = []\<rparr>
     = (Rejected ''boom'',
        \<lparr>replies = ([] :: (string, attr obj) response list), pages = [],
         sent = [(table_params ''T'')\<lparr>Item := Some [(''id'', Val (S ''a''))]\<rparr>]\<rparr>)
   \<and> deleteItem (scripted ''none'') ''T'' [(''id'', Val (S ''a''))] Absent Absent
      \<lparr>replies = [Failure ''boom''], pages = [], sent = []\<rparr>
     = (Rejected ''boom'',
        \<lparr>replies = ([] :: (string, attr obj) response list), pages = [],
         sent = [(table_params ''T'')\<lparr>Key := Some [(''id'', Val (S ''a''))]\<rparr>]\<rparr>)
   \<and> scanTable (scripted ''none'') ''T'' False
      \<lparr>replies = ([] :: (string, attr obj) response list), pages = [Failure ''boom''],
       sent = ([] :: attr params list)\<rparr>
     = Some (Rejected ''boom'', \<lparr>replies = [], pages = [], sent = [table_params ''T'']\<rparr>)
   \<and> scanTable (scripted ''none'') ''T'' True
      \<lparr>replies = ([] :: (string, attr obj) response list), pages = [Failure ''boom''],
       sent = ([] :: attr params list)\<rparr>
     = Some (Rejected ''boom'', \<lparr>replies = [], pages = [], sent = [table_params ''T'']\<rparr>)"
  using
    errors_rejected_unchanged [where client = "scripted ''none''" and tableName = "''T''"
      and key = "[(''id'', Val (S ''a''))]" and err = "''boom''"
      and s = "\<lparr>replies = [Failure ''boom''], pages = [], sent = []\<rparr>"
      and s' = "\<lparr>replies = ([] :: (string, attr obj) response list), pages = [],
        sent = [(table_params ''T'')\<lparr>Key := Some [(''id'', Val (S ''a''))]\<rparr>]\<rparr>"
      and item = "[(''id'', Val (S ''a''))]"
      and expression_arg = Absent and comparison_arg = Absent]
    errors_rejected_unchanged [where client = "scripted ''none''" and tableName = "''T''"
      and key = "[(''id'', Val (S ''a''))]" and err = "''boom''"
      and s = "\<lparr>replies = [Failure ''boom''], pages = [], sent = []\<rparr>"
      and s' = "\<lparr>replies = ([] :: (string, attr obj) response list), pages = [],
        sent = [(table_params ''T'')\<lparr>Item := Some [(''id'', Val (S ''a''))]\<rparr>]\<rparr>"
      and item = "[(''id'', Val (S ''a''))]"
      and expression_arg = Absent and comparison_arg = Absent]
    errors_rejected_unchanged [where client = "scripted ''none''" and tableName = "''T''"
      and key = "[(''id'', Val (S ''a''))]" and err = "''boom''"
      and s = "\<lparr>replies = ([] :: (string, attr obj) response list),
        pages = [Failure ''boom''], sent = ([] :: attr params list)\<rparr>"
      and s' = "\<lparr>replies = ([] :: (string, attr obj) response list), pages = [],
        sent = [table_params ''T'']\<rparr>"
      and item = "[(''id'', Val (S ''a''))]"
      and expression_arg = Absent and comparison_arg = Absent]
  by (simp add: scripted_def answer_def answer_scan_def putItem_params_def
      deleteItem_params_def table_params_def)

text \<open>
  Claim C7. For a key without a stored item the service answers the read with success
  and a result object that has no property (the SDK's answer \<^verbatim>\<open>{}\<close>). Then
  \<^verbatim>\<open>getItem\<close> resolves with that empty result, and it does not reject.
\<close>

theorem getItem_no_item_resolves_empty:
  assumes "get client ((table_params tableName)\<lparr>Key := Some key\<rparr>) s = (Success [], s')"
  shows "getItem client tableName key s = (Resolved [], s')
       \<and> (\<forall>err s''. getItem client tableName key s \<noteq> (Rejected err, s''))"
  using assms by (simp add: getItem_def)

theorem getItem_no_item_resolves_empty_witness:
  "get (scripted ''none'') ((table_params ''T'')\<lparr>Key := Some [(''id'', Val (S ''a''))]\<rparr>)
      \<lparr>replies = [Success []], pages = [], sent = []\<rparr>
     = (Success ([] :: attr obj),
        \<lparr>replies = [], pages = [],
         sent = [(table_params ''T'')\<lparr>Key := Some [(''id'', Val (S ''a''))]\<rparr>]\<rparr>)
   \<and> getItem (scripted ''none'') ''T'' [(''id'', Val (S ''a''))]
      \<lparr>replies = [Success []], pages = [], sent = []\<rparr>
     = (Resolved ([] :: attr obj),
        \<lparr>replies = [], pages = [],
         sent = [(table_params ''T'')\<lparr>Key := Some [(''id'', Val (S ''a''))]\<rparr>]\<rparr>)"
proof -
  have answered: "get (scripted ''none'')
      ((table_params ''T'')\<lparr>Key := Some [(''id'', Val (S ''a''))]\<rparr>)
      \<lparr>replies = [Success []], pages = [], sent = []\<rparr>
     = (Success ([] :: attr obj),
        \<lparr>replies = [], pages = [],
         sent = [(table_params ''T'')\<lparr>Key := Some [(''id'', Val (S ''a''))]\<rparr>]\<rparr>)"
    by (simp add: scripted_def answer_def)
  from getItem_no_item_resolves_empty [OF answered] answered show ?thesis
    by blast
qed

text \<open>
  Claim C10. When at least one of the two condition arguments of \<^verbatim>\<open>putItem\<close> or
  \<^verbatim>\<open>deleteItem\<close> is \<^verbatim>\<open>null\<close> or left out (in particular when exactly one of them is
  given), the request carries no condition expression and neither of the two
  placeholder mappings, and the call does what the call without both arguments does.
\<close>

theorem one_condition_argument_is_unconditional:
  assumes "expression_arg \<in> {Absent, Null} \<or> comparison_arg \<in> {Absent, Null}"
  shows "putItem_params tableName item expression_arg comparison_arg
           = (table_params tableName)\<lparr>Item := Some item\<rparr>
       \<and> deleteItem_params tableName key expression_arg comparison_arg
           = (table_params tableName)\<lparr>Key := Some key\<rparr>
       \<and> ConditionExpression (putItem_params tableName item expression_arg comparison_arg)
           = None
       \<and> ExpressionAttributeNames (putItem_params tableName item expression_arg comparison_arg)
           = None
       \<and> ExpressionAttributeValues (putItem_params tableName item expression_arg comparison_arg)
           = None
       \<and> ConditionExpression (deleteItem_params tableName key expression_arg comparison_arg)
           = None
       \<and> ExpressionAttributeNames (deleteItem_params tableName key expression_arg comparison_arg)
           = None
       \<and> ExpressionAttributeValues (deleteItem_params tableName key expression_arg comparison_arg)
           = None
       \<and> putItem client tableName item expression_arg comparison_arg s
           = putItem client tableName item Absent Absent s
       \<and> deleteItem client tableName key expression_arg comparison_arg s
           = deleteItem client tableName key Absent Absent s"
proof -
  have p: "putItem_params tableName item expression_arg comparison_arg
      = (table_params tableName)\<lparr>Item := Some item\<rparr>"
    using assms
    by (cases expression_arg; cases comparison_arg) (auto simp: putItem_params_def)
  have d: "deleteItem_params tableName key expression_arg comparison_arg
      = (table_params tableName)\<lparr>Key := Some key\<rparr>"
    using assms
    by (cases expression_arg; cases comparison_arg) (auto simp: deleteItem_params_def)
  have p0: "putItem_params tableName item Absent Absent
      = (table_params tableName)\<lparr>Item := Some item\<rparr>"
    by (simp add: putItem_params_def)
  have d0: "deleteItem_params tableName key Absent Absent
      = (table_params tableName)\<lparr>Key := Some key\<rparr>"
    by (simp add: deleteItem_params_def)
  show ?thesis
    by (simp add: p d p0 d0 putItem_def deleteItem_def table_params_def)
qed

theorem one_condition_argument_is_unconditional_witness:
  "(Given [(''v'', Val (N 1))] \<in> {Absent, Null} \<or> (Null :: string obj arg) \<in> {Absent, Null})
   \<and> putItem_params ''T'' [(''id'', Val (S ''a''))] (Given [(''v'', Val (N 1))]) Null
       = (table_params ''T'')\<lparr>Item := Some [(''id'', Val (S ''a''))]\<rparr>
   \<and> deleteItem_params ''T'' [(''id'', Val (S ''a''))] (Given [(''v'', Val (N 1))]) Null
       = (table_params ''T'')\<lparr>Key := Some [(''id'', Val (S ''a''))]\<rparr>"
proof -
  have h: "Given [(''v'', Val (N 1))] \<in> {Absent, Null}
      \<or> (Null :: string obj arg) \<in> {Absent, Null}"
    by simp
  note u = one_condition_argument_is_unconditional [OF h,
      where tableName = "''T''" and item = "[(''id'', Val (S ''a''))]"
        and key = "[(''id'', Val (S ''a''))]"]
  from u have p: "putItem_params ''T'' [(''id'', Val (S ''a''))] (Given [(''v'', Val (N 1))]) Null
      = (table_params ''T'')\<lparr>Item := Some [(''id'', Val (S ''a''))]\<rparr>"
    by (rule conjunct1)
  from u have d: "deleteItem_params ''T'' [(''id'', Val (S ''a''))] (Given [(''v'', Val (N 1))]) Null
      = (table_params ''T'')\<lparr>Key := Some [(''id'', Val (S ''a''))]\<rparr>"
    by (rule conjunct2 [THEN conjunct1])
  from h p d show ?thesis
    by (intro conjI)
qed

text \<open>
  Claim C2 says that \<^verbatim>\<open>getItem\<close> after \<^verbatim>\<open>putItem\<close> resolves with the item that was
  written. The run below is that round trip against the service: the write of
  \<^verbatim>\<open>{id: "a", v: 1}\<close> is acknowledged with \<^verbatim>\<open>{}\<close>, and the read of \<^verbatim>\<open>{id: "a"}\<close> is
  answered with the SDK's result object \<^verbatim>\<open>{Item: {id: "a", v: 1}}\<close>. The wrapper sends
  item and key unchanged, but it resolves with the result object as a whole, not with
  its \<^verbatim>\<open>Item\<close>: the value the caller gets is not the item that was written.
\<close>

theorem getItem_after_putItem_resolves_output:
  "fst (putItem (scripted ''none'') ''T'' [(''id'', Val (S ''a'')), (''v'', Val (N 1))]
          Absent Absent
          \<lparr>replies = [Success [],
              Success [(''Item'', Val (M [(''id'', Val (S ''a'')), (''v'', Val (N 1))]))]],
           pages = [], sent = []\<rparr>)
     = Resolved []
   \<and> fst (getItem (scripted ''none'') ''T'' [(''id'', Val (S ''a''))]
       (snd (putItem (scripted ''none'') ''T'' [(''id'', Val (S ''a'')), (''v'', Val (N 1))]
          Absent Absent
          \<lparr>replies = [Success [],
              Success [(''Item'', Val (M [(''id'', Val (S ''a'')), (''v'', Val (N 1))]))]],
           pages = [], sent = []\<rparr>)))
     = Resolved [(''Item'', Val (M [(''id'', Val (S ''a'')), (''v'', Val (N 1))]))]
   \<and> fst (getItem (scripted ''none'') ''T'' [(''id'', Val (S ''a''))]
       (snd (putItem (scripted ''none'') ''T'' [(''id'', Val (S ''a'')), (''v'', Val (N 1))]
          Absent Absent
          \<lparr>replies = [Success [],
              Success [(''Item'', Val (M [(''id'', Val (S ''a'')), (''v'', Val (N 1))]))]],
           pages = [], sent = []\<rparr>)))
     \<noteq> Resolved [(''id'', Val (S ''a'')), (''v'', Val (N 1))]
   \<and> sent (snd (getItem (scripted ''none'') ''T'' [(''id'', Val (S ''a''))]
       (snd (putItem (scripted ''none'') ''T'' [(''id'', Val (S ''a'')), (''v'', Val (N 1))]
          Absent Absent
          \<lparr>replies = [Success [],
              Success [(''Item'', Val (M [(''id'', Val (S ''a'')), (''v'', Val (N 1))]))]],
           pages = [], sent = []\<rparr>))))
     = [(table_params ''T'')\<lparr>Item := Some [(''id'', Val (S ''a'')), (''v'', Val (N 1))]\<rparr>,
        (table_params ''T'')\<lparr>Key := Some [(''id'', Val (S ''a''))]\<rparr>]"
  by (simp add: putItem_def getItem_def putItem_params_def scripted_def answer_def
      table_params_def)

section \<open>Claims about the constructor\<close>

text \<open>
  Claim C9, as stated: after a second construction with another region and endpoint,
  the operations of the instance constructed first work with the newer configuration.
  The second construction does overwrite the global configuration, but the client of
  the first instance was created before and keeps the configuration it was created
  with.
\<close>

theorem earlier_instance_keeps_its_configuration:
  "AWS_config (snd (constructor (Given ''eu-west-1'') (Given ''http://localhost:9000'')
       (snd (constructor (Given ''us-east-1'') (Given ''http://localhost:8000'')
          \<lparr>AWS_config = \<lparr>region = None, dynamodb_endpoint = None\<rparr>, clients = []\<rparr>))))
     = \<lparr>region = Some ''eu-west-1'', dynamodb_endpoint = Some ''http://localhost:9000''\<rparr>
   \<and> clients (snd (constructor (Given ''eu-west-1'') (Given ''http://localhost:9000'')
       (snd (constructor (Given ''us-east-1'') (Given ''http://localhost:8000'')
          \<lparr>AWS_config = \<lparr>region = None, dynamodb_endpoint = None\<rparr>, clients = []\<rparr>))))
       ! fst (constructor (Given ''us-east-1'') (Given ''http://localhost:8000'')
          \<lparr>AWS_config = \<lparr>region = None, dynamodb_endpoint = None\<rparr>, clients = []\<rparr>)
     = \<lparr>region = Some ''us-east-1'', dynamodb_endpoint = Some ''http://localhost:8000''\<rparr>
   \<and> clients (snd (constructor (Given ''eu-west-1'') (Given ''http://localhost:9000'')
       (snd (constructor (Given ''us-east-1'') (Given ''http://localhost:8000'')
          \<lparr>AWS_config = \<lparr>region = None, dynamodb_endpoint = None\<rparr>, clients = []\<rparr>))))
       ! fst (constructor (Given ''us-east-1'') (Given ''http://localhost:8000'')
          \<lparr>AWS_config = \<lparr>region = None, dynamodb_endpoint = None\<rparr>, clients = []\<rparr>)
     \<noteq> AWS_config (snd (constructor (Given ''eu-west-1'') (Given ''http://localhost:9000'')
       (snd (constructor (Given ''us-east-1'') (Given ''http://localhost:8000'')
          \<lparr>AWS_config = \<lparr>region = None, dynamodb_endpoint = None\<rparr>, clients = []\<rparr>))))"
  by (simp add: constructor_def config_update_def Let_def)

text \<open>
  Claim C9, amended: constructing the adapter writes the region and the endpoint it is
  given into the process-wide configuration, each only when it is a non-empty string,
  and leaves the other setting as earlier constructions left it. The client of the new
  instance works with the global configuration as it is after this update. The clients
  of the instances constructed before keep their configuration.
\<close>

theorem constructor_updates_shared_configuration:
  assumes "constructor region_arg endpoint_arg p = (this, p')"
  shows "AWS_config p' = config_update region_arg endpoint_arg (AWS_config p)
       \<and> region (AWS_config p')
           = (case truthy_string region_arg of
                Some r \<Rightarrow> Some r | None \<Rightarrow> region (AWS_config p))
       \<and> dynamodb_endpoint (AWS_config p')
           = (case truthy_string endpoint_arg of
                Some e \<Rightarrow> Some e | None \<Rightarrow> dynamodb_endpoint (AWS_config p))
       \<and> this = length (clients p)
       \<and> clients p' ! this = AWS_config p'
       \<and> (\<forall>earlier < length (clients p). clients p' ! earlier = clients p ! earlier)"
  using assms
  by (auto simp: constructor_def config_update_def Let_def nth_append split: option.splits)

theorem constructor_updates_shared_configuration_witness:
  "constructor (Given ''eu-west-1'') Absent
      \<lparr>AWS_config = \<lparr>region = Some ''us-east-1'',
          dynamodb_endpoint = Some ''http://localhost:8000''\<rparr>,
       clients = [\<lparr>region = Some ''us-east-1'',
          dynamodb_endpoint = Some ''http://localhost:8000''\<rparr>]\<rparr>
     = (1, \<lparr>AWS_config = \<lparr>region = Some ''eu-west-1'',
              dynamodb_endpoint = Some ''http://localhost:8000''\<rparr>,
            clients = [\<lparr>region = Some ''us-east-1'',
              dynamodb_endpoint = Some ''http://localhost:8000''\<rparr>,
              \<lparr>region = Some ''eu-west-1'',
              dynamodb_endpoint = Some ''http://localhost:8000''\<rparr>]\<rparr>)
   \<and> clients \<lparr>AWS_config = \<lparr>region = Some ''eu-west-1'',
              dynamodb_endpoint = Some ''http://localhost:8000''\<rparr>,
            clients = [\<lparr>region = Some ''us-east-1'',
              dynamodb_endpoint = Some ''http://localhost:8000''\<rparr>,
              \<lparr>region = Some ''eu-west-1'',
              dynamodb_endpoint = Some ''http://localhost:8000''\<rparr>]\<rparr> ! 0
     = \<lparr>region = Some ''us-east-1'', dynamodb_endpoint = Some ''http://localhost:8000''\<rparr>"
proof -
  have run: "constructor (Given ''eu-west-1'') Absent
      \<lparr>AWS_config = \<lparr>region = Some ''us-east-1'',
          dynamodb_endpoint = Some ''http://localhost:8000''\<rparr>,
       clients = [\<lparr>region = Some ''us-east-1'',
          dynamodb_endpoint = Some ''http://localhost:8000''\<rparr>]\<rparr>
     = (1, \<lparr>AWS_config = \<lparr>region = Some ''eu-west-1'',
              dynamodb_endpoint = Some ''http://localhost:8000''\<rparr>,
            clients = [\<lparr>region = Some ''us-east-1'',
              dynamodb_endpoint = Some ''http://localhost:8000''\<rparr>,
              \<lparr>region = Some ''eu-west-1'',
              dynamodb_endpoint = Some ''http://localhost:8000''\<rparr>]\<rparr>)"
    by (simp add: constructor_def config_update_def Let_def)
  from constructor_updates_shared_configuration [OF run] run show ?thesis
    by simp
qed

end
